theory Spec2Isabelle
  imports Complex_Main "HOL-Library.Multiset"
begin

section \<open>Data model\<close>

text \<open>
  The development follows \<^verbatim>\<open>ModellingToolbox/Resources/Geometries.py\<close> (classes
  \<^verbatim>\<open>GeoPoint\<close> and \<^verbatim>\<open>Line\<close>) and \<^verbatim>\<open>Resources/GeoObject.py\<close> (class
  \<^verbatim>\<open>AbstractGeoObject\<close>).

  A stored coordinate is a real number (every float is one, and equality of stored floats
  is equality of these numbers); float arithmetic is not modelled, see \<open>matches\<close>. Python
  objects have identity: a point object is an address into a heap of \<^verbatim>\<open>GeoPoint\<close> values,
  and the line's \<^verbatim>\<open>points\<close> collection is a list of addresses. \<^verbatim>\<open>GeoPoint\<close> defines
  no \<^verbatim>\<open>__eq__\<close>, so \<^verbatim>\<open>list.remove\<close> and \<^verbatim>\<open>list.index\<close> compare addresses. A
  \<^verbatim>\<open>StratigraphicObject\<close> is represented by its identity as well.

  A mapped column of an object that has not been written to holds \<^verbatim>\<open>None\<close> (the column
  defaults are applied by the database at insertion, not in memory): \<^verbatim>\<open>horizon_id\<close> and
  \<^verbatim>\<open>line_pos\<close> of a point, \<^verbatim>\<open>closed\<close> and \<^verbatim>\<open>horizon_id\<close> of a line are optional.
\<close>

type_synonym addr = nat
type_synonym strat = nat

record GeoPoint =
  east :: real
  north :: real
  alt :: real
  has_z :: bool
  hor :: "strat option"
  horizon_id :: "int option"
  line_pos :: "int option"

record Line =
  closed :: "bool option"
  line_hor :: "strat option"
  line_horizon_id :: "int option"
  points :: "addr list"

record state =
  heap :: "addr \<Rightarrow> GeoPoint"
  line :: Line

text \<open>Dynamically typed arguments: what a caller may pass where a point, or a horizon, is expected.\<close>

datatype pyobj = GeoPointRef addr | OtherObj

datatype pyhor = PyNone | StratRef strat | OtherHor

datatype error = TypeError | ValueError | IndexError | OverflowError

text \<open>
  An operation ends normally (\<open>None\<close>) or by raising (\<open>Some e\<close>); in both cases the second
  component is the state at that moment, so that a mutation made before a raise stays visible.
\<close>

type_synonym result = "error option \<times> state"

definition then_do :: "result \<Rightarrow> (state \<Rightarrow> result) \<Rightarrow> result" where
  "then_do r f = (case r of (None, s) \<Rightarrow> f s | (Some e, s) \<Rightarrow> (Some e, s))"

section \<open>Python list operations\<close>

text \<open>
  \<^verbatim>\<open>list.insert(i, x)\<close> converts its index to the machine's \<^verbatim>\<open>Py_ssize_t\<close> (64 bits)
  and raises OverflowError when it does not fit.
\<close>

definition ssize_ok :: "int \<Rightarrow> bool" where
  "ssize_ok i = (- (2 ^ 63) \<le> i \<and> i < 2 ^ 63)"

text \<open>
  The index at which \<^verbatim>\<open>list.insert(i, x)\<close> places its element in a list of length \<open>n\<close>:
  a negative index counts from the end, and both directions are clamped to the list;
  \<open>None\<close> stands for the OverflowError.
\<close>

definition py_index :: "nat \<Rightarrow> int \<Rightarrow> nat option" where
  "py_index n i =
     (if \<not> ssize_ok i then None
      else if i < 0 then Some (nat (max (i + int n) 0))
      else Some (min (nat i) n))"

definition list_insert :: "int \<Rightarrow> 'a \<Rightarrow> 'a list \<Rightarrow> 'a list option" where
  "list_insert i x xs =
     (case py_index (length xs) i of
        None \<Rightarrow> None
      | Some k \<Rightarrow> Some (take k xs @ [x] @ drop k xs))"

text \<open>\<^verbatim>\<open>list.remove(x)\<close> deletes the first element equal to \<open>x\<close>; \<open>None\<close> stands for its ValueError.\<close>

definition list_remove :: "'a \<Rightarrow> 'a list \<Rightarrow> 'a list option" where
  "list_remove x xs = (if x \<in> set xs then Some (remove1 x xs) else None)"

section \<open>AbstractGeoObject and GeoPoint\<close>

definition easting :: "GeoPoint \<Rightarrow> real" where
  "easting p = east p"

definition northing :: "GeoPoint \<Rightarrow> real" where
  "northing p = north p"

text \<open>The getter returns \<^verbatim>\<open>float(self.alt)\<close>; it does not read \<^verbatim>\<open>has_z\<close>.\<close>

definition altitude :: "GeoPoint \<Rightarrow> real" where
  "altitude p = alt p"

text \<open>
  \<^verbatim>\<open>GeoPoint.__init__\<close> with a horizon that is \<^verbatim>\<open>None\<close> or a stratigraphic object: the
  horizon setter writes \<^verbatim>\<open>horizon_id = -1\<close> for \<^verbatim>\<open>None\<close> only, and nothing writes
  \<^verbatim>\<open>line_pos\<close>.
\<close>

definition GeoPoint_init :: "strat option \<Rightarrow> bool \<Rightarrow> real \<Rightarrow> real \<Rightarrow> real \<Rightarrow> GeoPoint" where
  "GeoPoint_init h z e n a =
     \<lparr>east = e, north = n, alt = a, has_z = z, hor = h,
      horizon_id = (case h of None \<Rightarrow> Some (- 1) | Some x \<Rightarrow> None), line_pos = None\<rparr>"

definition del_z :: "GeoPoint \<Rightarrow> GeoPoint" where
  "del_z p = p\<lparr>alt := 0, has_z := False\<rparr>"

definition use_z :: "GeoPoint \<Rightarrow> GeoPoint" where
  "use_z p = p\<lparr>has_z := True\<rparr>"

text \<open>The \<^verbatim>\<open>GeoPoint.horizon\<close> setter.\<close>

definition GeoPoint_set_horizon :: "pyhor \<Rightarrow> GeoPoint \<Rightarrow> error + GeoPoint" where
  "GeoPoint_set_horizon v p =
     (case v of
        OtherHor \<Rightarrow> Inl TypeError
      | PyNone \<Rightarrow> Inr (p\<lparr>hor := None, horizon_id := Some (- 1)\<rparr>)
      | StratRef x \<Rightarrow> Inr (p\<lparr>hor := Some x\<rparr>))"

section \<open>Line\<close>

text \<open>
  The collection class of \<^verbatim>\<open>Line.points\<close> is an ordering list on \<^verbatim>\<open>line_pos\<close>:
  \<^verbatim>\<open>reorder()\<close> writes to every member its index in the list, and (source comment at the
  relationship) the collection does the same by itself after an insertion or a deletion.
\<close>

fun reorder_from :: "int \<Rightarrow> addr list \<Rightarrow> (addr \<Rightarrow> GeoPoint) \<Rightarrow> (addr \<Rightarrow> GeoPoint)" where
  "reorder_from i [] h = h"
| "reorder_from i (a # as) h = reorder_from (i + 1) as (h(a := (h a)\<lparr>line_pos := Some i\<rparr>))"

definition reorder :: "state \<Rightarrow> state" where
  "reorder s = s\<lparr>heap := reorder_from 0 (points (line s)) (heap s)\<rparr>"

text \<open>The collection after an insertion or a deletion that leaves the members \<open>ps\<close>.\<close>

definition set_points :: "addr list \<Rightarrow> state \<Rightarrow> state" where
  "set_points ps s = reorder (s\<lparr>line := (line s)\<lparr>points := ps\<rparr>\<rparr>)"

text \<open>
  The assignment \<^verbatim>\<open>self.points = points\<close> to the empty collection of a new line appends
  the members one by one; the ordering list numbers an appended member with its index only
  if its \<^verbatim>\<open>line_pos\<close> is still \<^verbatim>\<open>None\<close>.
\<close>

fun number_new :: "int \<Rightarrow> addr list \<Rightarrow> (addr \<Rightarrow> GeoPoint) \<Rightarrow> (addr \<Rightarrow> GeoPoint)" where
  "number_new i [] h = h"
| "number_new i (a # as) h =
     number_new (i + 1) as
       (if line_pos (h a) = None then h(a := (h a)\<lparr>line_pos := Some i\<rparr>) else h)"

definition assign_points :: "addr list \<Rightarrow> state \<Rightarrow> state" where
  "assign_points ps s = s\<lparr>line := (line s)\<lparr>points := ps\<rparr>, heap := number_new 0 ps (heap s)\<rparr>"

text \<open>
  A slice assignment \<^verbatim>\<open>self.points[i:i] = ys\<close> goes through the instrumented collection
  and not through \<^verbatim>\<open>list\<close>: a negative start has the length added once and is not
  clamped, and the new members are inserted one by one with \<^verbatim>\<open>insert(start + k, y)\<close>,
  each insertion clamping its own index and renumbering the members.
\<close>

fun insert_each :: "int \<Rightarrow> addr list \<Rightarrow> state \<Rightarrow> result" where
  "insert_each k [] s = (None, s)"
| "insert_each k (y # ys) s =
     (case list_insert k y (points (line s)) of
        None \<Rightarrow> (Some OverflowError, s)
      | Some zs \<Rightarrow> insert_each (k + 1) ys (set_points zs s))"

definition slice_insert :: "int \<Rightarrow> addr list \<Rightarrow> state \<Rightarrow> result" where
  "slice_insert i ys s =
     insert_each (if i < 0 then i + int (length (points (line s))) else i) ys s"

definition coord :: "GeoPoint \<Rightarrow> real \<times> real \<times> real" where
  "coord p = (easting p, northing p, altitude p)"

text \<open>The getter \<^verbatim>\<open>Line.horizon\<close>, as the Python value it returns.\<close>

definition Line_horizon :: "Line \<Rightarrow> pyhor" where
  "Line_horizon l = (case line_hor l of None \<Rightarrow> PyNone | Some x \<Rightarrow> StratRef x)"

text \<open>\<^verbatim>\<open>__check_line\<close>: \<^verbatim>\<open>for point in self.points: point.horizon = self.horizon\<close>.\<close>

fun check_loop :: "addr list \<Rightarrow> state \<Rightarrow> result" where
  "check_loop [] s = (None, s)"
| "check_loop (a # as) s =
     (case GeoPoint_set_horizon (Line_horizon (line s)) (heap s a) of
        Inl e \<Rightarrow> (Some e, s)
      | Inr p \<Rightarrow> check_loop as (s\<lparr>heap := (heap s)(a := p)\<rparr>))"

definition check_line :: "state \<Rightarrow> result" where
  "check_line s = check_loop (points (line s)) s"

text \<open>
  \<^verbatim>\<open>__remove_doubled_points\<close>, first part: the loop over the copy \<^verbatim>\<open>tmp_pnts\<close>. The
  argument list is the rest of the copy from index \<open>i\<close> on; the collection that is mutated
  is the one in the state.
\<close>

fun dedup_loop :: "addr list \<Rightarrow> state \<Rightarrow> result" where
  "dedup_loop (a # b # rest) s =
     (if coord (heap s a) = coord (heap s b)
      then (case list_remove b (points (line s)) of
              None \<Rightarrow> (Some ValueError, s)
            | Some ps \<Rightarrow> dedup_loop (b # rest) (set_points ps s))
      else dedup_loop (b # rest) s)"
| "dedup_loop rest s = (None, s)"

text \<open>
  Second part: \<^verbatim>\<open>self.points[0]\<close> and \<^verbatim>\<open>self.points[-1]\<close> raise IndexError on an empty
  collection; otherwise the last point is deleted and \<^verbatim>\<open>closed\<close> set when both have the
  same coordinates; then \<^verbatim>\<open>reorder()\<close>.
\<close>

definition fold_closure :: "state \<Rightarrow> result" where
  "fold_closure s =
     (case points (line s) of
        [] \<Rightarrow> (Some IndexError, s)
      | p0 # ps \<Rightarrow>
          (if coord (heap s p0) = coord (heap s (last (p0 # ps)))
           then (let s1 = set_points (butlast (p0 # ps)) s
                 in (None, reorder (s1\<lparr>line := (line s1)\<lparr>closed := Some True\<rparr>\<rparr>)))
           else (None, reorder s)))"

definition remove_doubled_points :: "state \<Rightarrow> result" where
  "remove_doubled_points s = then_do (dedup_loop (points (line s)) s) fold_closure"

text \<open>What every constructor and mutator runs last.\<close>

definition run_checks :: "state \<Rightarrow> result" where
  "run_checks s = then_do (remove_doubled_points s) check_line"

text \<open>The \<^verbatim>\<open>Line.horizon\<close> setter.\<close>

definition Line_set_horizon :: "pyhor \<Rightarrow> state \<Rightarrow> result" where
  "Line_set_horizon v s =
     (case v of
        OtherHor \<Rightarrow> (Some TypeError, s)
      | PyNone \<Rightarrow> check_line (s\<lparr>line := (line s)\<lparr>line_hor := None, line_horizon_id := Some (- 1)\<rparr>\<rparr>)
      | StratRef x \<Rightarrow> check_line (s\<lparr>line := (line s)\<lparr>line_hor := Some x\<rparr>\<rparr>))"

text \<open>The type check \<^verbatim>\<open>for pnt in points: if type(pnt) is not GeoPoint: raise\<close>.\<close>

fun all_points :: "pyobj list \<Rightarrow> addr list option" where
  "all_points [] = Some []"
| "all_points (OtherObj # xs) = None"
| "all_points (GeoPointRef a # xs) = (case all_points xs of None \<Rightarrow> None | Some as \<Rightarrow> Some (a # as))"

text \<open>
  \<^verbatim>\<open>Line.__init__\<close>. The object starts with an empty collection and with \<^verbatim>\<open>None\<close> in
  its columns. The type check raises ValueError (the mutators raise TypeError). The base
  class constructor that is called last (\<^verbatim>\<open>Resources.DBHandler\<close>) is not among the sources;
  it is given neither the points nor the horizon and is left out.
\<close>

definition blank_line :: Line where
  "blank_line = \<lparr>closed = None, line_hor = None, line_horizon_id = None, points = []\<rparr>"

definition Line_init :: "bool \<Rightarrow> pyhor \<Rightarrow> pyobj list \<Rightarrow> (addr \<Rightarrow> GeoPoint) \<Rightarrow> result" where
  "Line_init cl horizon pts h =
     (let s0 = \<lparr>heap = h, line = blank_line\<rparr> in
      case all_points pts of
        None \<Rightarrow> (Some ValueError, s0)
      | Some ps \<Rightarrow>
          then_do (Line_set_horizon horizon (s0\<lparr>line := (line s0)\<lparr>closed := Some cl\<rparr>\<rparr>))
            (\<lambda>s1. run_checks (assign_points ps s1)))"

text \<open>
  The mutators. The position is an integer already (\<^verbatim>\<open>int(position)\<close> has succeeded).
  \<^verbatim>\<open>insert_point\<close> calls \<^verbatim>\<open>insert\<close> of the collection; \<^verbatim>\<open>insert_points\<close> assigns to
  the empty slice \<^verbatim>\<open>[-1:-1]\<close> when the position is not below the length, and to
  \<^verbatim>\<open>[position:position]\<close> otherwise.
\<close>

definition insert_point :: "pyobj \<Rightarrow> int \<Rightarrow> state \<Rightarrow> result" where
  "insert_point point position s =
     (case point of
        OtherObj \<Rightarrow> (Some TypeError, s)
      | GeoPointRef a \<Rightarrow>
          (case list_insert position a (points (line s)) of
             None \<Rightarrow> (Some OverflowError, s)
           | Some ps \<Rightarrow> run_checks (set_points ps s)))"

definition insert_points :: "pyobj list \<Rightarrow> int \<Rightarrow> state \<Rightarrow> result" where
  "insert_points pts position s =
     (case all_points pts of
        None \<Rightarrow> (Some TypeError, s)
      | Some ps \<Rightarrow>
          (if int (length (points (line s))) \<le> position
           then then_do (slice_insert (- 1) ps s) run_checks
           else then_do (slice_insert position ps s) run_checks))"

definition delete_point :: "pyobj \<Rightarrow> state \<Rightarrow> result" where
  "delete_point point s =
     (case point of
        OtherObj \<Rightarrow> (Some TypeError, s)
      | GeoPointRef a \<Rightarrow>
          (case list_remove a (points (line s)) of
             None \<Rightarrow> (Some ValueError, s)
           | Some ps \<Rightarrow> run_checks (set_points ps s)))"

text \<open>
  \<^verbatim>\<open>delete_point_by_coordinates\<close>. The test of one coordinate,
  \<^verbatim>\<open>abs(float(x) - y) < float_precision\<close>, is computed in float arithmetic with a constant
  from \<^verbatim>\<open>Resources.constants\<close>, which is not among the sources: the test is the parameter
  \<open>near\<close>, of which nothing is assumed.
\<close>

definition matches :: "(real \<Rightarrow> real \<Rightarrow> bool) \<Rightarrow> real \<Rightarrow> real \<Rightarrow> real \<Rightarrow> GeoPoint \<Rightarrow> bool" where
  "matches near e n a p =
     (near (easting p) e \<and> near (northing p) n \<and> (near (altitude p) a \<or> \<not> has_z p))"

fun delete_scan ::
  "(real \<Rightarrow> real \<Rightarrow> bool) \<Rightarrow> real \<Rightarrow> real \<Rightarrow> real \<Rightarrow> addr list \<Rightarrow> state \<Rightarrow> result" where
  "delete_scan near e n a [] s = (Some ValueError, s)"
| "delete_scan near e n a (x # xs) s =
     (if matches near e n a (heap s x)
      then (case list_remove x (points (line s)) of
              None \<Rightarrow> (Some ValueError, s)
            | Some ps \<Rightarrow> run_checks (set_points ps s))
      else delete_scan near e n a xs s)"

definition delete_point_by_coordinates ::
  "(real \<Rightarrow> real \<Rightarrow> bool) \<Rightarrow> real \<Rightarrow> real \<Rightarrow> real \<Rightarrow> state \<Rightarrow> result" where
  "delete_point_by_coordinates near e n a s = delete_scan near e n a (points (line s)) s"

section \<open>Loading lines in an extent\<close>

text \<open>
  The session is the persistence collaborator. Of a \<^verbatim>\<open>geopoints\<close> row the query reads
  \<^verbatim>\<open>line_id\<close>, \<^verbatim>\<open>east\<close> and \<^verbatim>\<open>north\<close>; of a \<^verbatim>\<open>lines\<close> row, the primary key
  \<^verbatim>\<open>id\<close> (the remaining columns are carried along). Each \<^verbatim>\<open>.all()\<close> is one query sent
  to the database, recorded in the order sent.
\<close>

record point_row =
  pr_line_id :: int
  pr_east :: real
  pr_north :: real

record line_row =
  lr_id :: int
  lr_closed :: bool

record database =
  geopoints :: "point_row list"
  lines :: "line_row list"

datatype pysession = Session database | NotSession

datatype query = SelectLineIdsOfPoints | SelectLinesByIds

text \<open>SQL \<^verbatim>\<open>x BETWEEN lo AND hi\<close>.\<close>

definition between :: "real \<Rightarrow> real \<Rightarrow> real \<Rightarrow> bool" where
  "between x lo hi = (lo \<le> x \<and> x \<le> hi)"

text \<open>The first query and the set built from it (the local variable \<^verbatim>\<open>points\<close>).\<close>

definition extent_line_ids :: "database \<Rightarrow> real \<Rightarrow> real \<Rightarrow> real \<Rightarrow> real \<Rightarrow> int set" where
  "extent_line_ids db min_easting max_easting min_northing max_northing =
     set (map pr_line_id
       (filter (\<lambda>p. pr_line_id p \<noteq> - 1 \<and>
                     between (pr_east p) min_easting max_easting \<and>
                     between (pr_north p) min_northing max_northing)
          (geopoints db)))"

definition load_in_extent_from_db ::
  "pysession \<Rightarrow> real \<Rightarrow> real \<Rightarrow> real \<Rightarrow> real \<Rightarrow> error + (line_row list \<times> query list)" where
  "load_in_extent_from_db session min_easting max_easting min_northing max_northing =
     (case session of
        NotSession \<Rightarrow> Inl TypeError
      | Session db \<Rightarrow>
          (let ids = extent_line_ids db min_easting max_easting min_northing max_northing
           in if ids = {} then Inr ([], [SelectLineIdsOfPoints])
              else Inr (sort_key lr_id (filter (\<lambda>l. lr_id l \<in> ids) (lines db)),
                        [SelectLineIdsOfPoints, SelectLinesByIds])))"

section \<open>Notions used in the statements\<close>

text \<open>What the \<^verbatim>\<open>GeoPoint.horizon\<close> setter makes of a point when given the line's horizon.\<close>

definition with_horizon :: "strat option \<Rightarrow> GeoPoint \<Rightarrow> GeoPoint" where
  "with_horizon v p =
     (case v of None \<Rightarrow> p\<lparr>hor := None, horizon_id := Some (- 1)\<rparr> | Some x \<Rightarrow> p\<lparr>hor := Some x\<rparr>)"

text \<open>Every member point carries the line's horizon.\<close>

definition stratigraphy_propagated :: "state \<Rightarrow> bool" where
  "stratigraphy_propagated s = list_all (\<lambda>a. hor (heap s a) = line_hor (line s)) (points (line s))"

text \<open>The ordinals of the member points are their indices in the sequence.\<close>

definition ordinals :: "state \<Rightarrow> int option list" where
  "ordinals s = map (\<lambda>a. line_pos (heap s a)) (points (line s))"

text \<open>The coordinate triples of the member points, in sequence order.\<close>

definition coords :: "state \<Rightarrow> (real \<times> real \<times> real) list" where
  "coords s = map (\<lambda>a. coord (heap s a)) (points (line s))"

text \<open>
  The description of adjacent-duplicate removal in words: of a sequence, keep the first
  element and every element whose key differs from the key of its predecessor in the
  original sequence.
\<close>

fun keep_adj :: "('a \<Rightarrow> 'k) \<Rightarrow> 'a list \<Rightarrow> 'a list" where
  "keep_adj k (a # b # rest) =
     (if k a = k b then a # tl (keep_adj k (b # rest)) else a # keep_adj k (b # rest))"
| "keep_adj k rest = rest"




text \<open>The test \<^verbatim>\<open>type(pnt) is GeoPoint\<close>.\<close>

fun is_GeoPoint :: "pyobj \<Rightarrow> bool" where
  "is_GeoPoint (GeoPointRef a) = True"
| "is_GeoPoint OtherObj = False"

text \<open>Two heaps that hold the same points up to the ordinals \<^verbatim>\<open>line_pos\<close>.\<close>

definition same_but_pos :: "(addr \<Rightarrow> GeoPoint) \<Rightarrow> (addr \<Rightarrow> GeoPoint) \<Rightarrow> bool" where
  "same_but_pos h' h = (\<forall>x. \<exists>k. h' x = (h x)\<lparr>line_pos := k\<rparr>)"

text \<open>
  A point row that is attached to a line (its \<^verbatim>\<open>line_id\<close> is not the sentinel) and lies
  in the closed rectangle; a line that has such a point among its member points.
\<close>

definition attached_in_extent :: "real \<Rightarrow> real \<Rightarrow> real \<Rightarrow> real \<Rightarrow> point_row \<Rightarrow> bool" where
  "attached_in_extent minE maxE minN maxN p =
     (pr_line_id p \<noteq> - 1 \<and> minE \<le> pr_east p \<and> pr_east p \<le> maxE \<and>
      minN \<le> pr_north p \<and> pr_north p \<le> maxN)"

definition has_point_in_extent :: "database \<Rightarrow> real \<Rightarrow> real \<Rightarrow> real \<Rightarrow> real \<Rightarrow> line_row \<Rightarrow> bool" where
  "has_point_in_extent db minE maxE minN maxN l =
     (\<exists>p\<in>set (geopoints db). pr_line_id p = lr_id l \<and> attached_in_extent minE maxE minN maxN p)"


section \<open>Example data\<close>

text \<open>
  Four points without z-value at (0,0), (1,1), (2,2), (3,3) under the addresses 0 to 3;
  every other address holds a point at (9,9).
\<close>

definition example_heap :: "addr \<Rightarrow> GeoPoint" where
  "example_heap =
     (\<lambda>_. GeoPoint_init None False 9 9 0)
       (0 := GeoPoint_init None False 0 0 0,
        1 := GeoPoint_init None False 1 1 0,
        2 := GeoPoint_init None False 2 2 0,
        3 := GeoPoint_init None False 3 3 0)"

text \<open>The line through the points 0 and 1, as its constructor leaves it.\<close>

definition example_state :: state where
  "example_state =
     \<lparr>heap = example_heap(0 := (example_heap 0)\<lparr>line_pos := Some 0\<rparr>,
                          1 := (example_heap 1)\<lparr>line_pos := Some 1\<rparr>),
      line = \<lparr>closed = Some False, line_hor = None, line_horizon_id = Some (- 1), points = [0, 1]\<rparr>\<rparr>"

text \<open>
  A database with the lines 5 and 3; line 5 has points at (0,0) and (10,10), line 3 a point
  at (50,50), and one point at (1,1) belongs to no line.
\<close>

definition example_db :: database where
  "example_db =
     \<lparr>geopoints =
        [\<lparr>pr_line_id = 5, pr_east = 0, pr_north = 0\<rparr>,
         \<lparr>pr_line_id = 5, pr_east = 10, pr_north = 10\<rparr>,
         \<lparr>pr_line_id = 3, pr_east = 50, pr_north = 50\<rparr>,
         \<lparr>pr_line_id = - 1, pr_east = 1, pr_north = 1\<rparr>],
      lines = [\<lparr>lr_id = 5, lr_closed = False\<rparr>, \<lparr>lr_id = 3, lr_closed = False\<rparr>]\<rparr>"

text \<open>
  Two points without z-value at the same easting and northing (0,0) whose stored altitudes
  are 1 and 2, as \<^verbatim>\<open>GeoPoint(None, False, '', 0, 0, 1)\<close> and
  \<^verbatim>\<open>GeoPoint(None, False, '', 0, 0, 2)\<close> make them.
\<close>

definition no_z_heap :: "addr \<Rightarrow> GeoPoint" where
  "no_z_heap =
     (\<lambda>_. GeoPoint_init None False 9 9 0)
       (0 := GeoPoint_init None False 0 0 1,
        1 := GeoPoint_init None False 0 0 2)"

text \<open>
  Four distinct points at (0,0), (1,1), (0,0), (0,0): the first three form the pattern A, B, A,
  the last repeats its predecessor.
\<close>

definition aba_heap :: "addr \<Rightarrow> GeoPoint" where
  "aba_heap =
     (\<lambda>_. GeoPoint_init None False 9 9 0)
       (0 := GeoPoint_init None False 0 0 0,
        1 := GeoPoint_init None False 1 1 0,
        2 := GeoPoint_init None False 0 0 0,
        3 := GeoPoint_init None False 0 0 0)"

text \<open>The state in which the constructor hands these four points to the normalization.\<close>

definition aba_state :: state where
  "aba_state =
     assign_points [0, 1, 2, 3]
       \<lparr>heap = aba_heap,
        line = \<lparr>closed = Some False, line_hor = None, line_horizon_id = Some (- 1), points = []\<rparr>\<rparr>"

text \<open>
  The state in which the constructor hands the sequence q, p, q, q to the normalization, for
  one point object q at (0,0) (address 0) and p at (1,1) (address 1).
\<close>

definition qpqq_state :: state where
  "qpqq_state =
     assign_points [0, 1, 0, 0]
       \<lparr>heap = aba_heap,
        line = \<lparr>closed = Some False, line_hor = None, line_horizon_id = Some (- 1), points = []\<rparr>\<rparr>"

text \<open>
  A line through four distinct points at (0,0), (1,1), (0,0), (3,3), numbered 0 to 3: no two
  neighbours and not the two ends have the same coordinates.
\<close>

definition abac_heap :: "addr \<Rightarrow> GeoPoint" where
  "abac_heap =
     (\<lambda>_. GeoPoint_init None False 9 9 0)
       (0 := (GeoPoint_init None False 0 0 0)\<lparr>line_pos := Some 0\<rparr>,
        1 := (GeoPoint_init None False 1 1 0)\<lparr>line_pos := Some 1\<rparr>,
        2 := (GeoPoint_init None False 0 0 0)\<lparr>line_pos := Some 2\<rparr>,
        3 := (GeoPoint_init None False 3 3 0)\<lparr>line_pos := Some 3\<rparr>)"

definition abac_state :: state where
  "abac_state =
     \<lparr>heap = abac_heap,
      line = \<lparr>closed = Some False, line_hor = None, line_horizon_id = Some (- 1),
              points = [0, 1, 2, 3]\<rparr>\<rparr>"

text \<open>An example of the coordinate test: the exact difference is below one thousandth.\<close>

definition near_example :: "real \<Rightarrow> real \<Rightarrow> bool" where
  "near_example x y = (\<bar>x - y\<bar> < 1 / 1000)"

section \<open>Evaluation\<close>

lemmas eval_defs =
  Line_init_def run_checks_def remove_doubled_points_def fold_closure_def then_do_def
  check_line_def set_points_def reorder_def Line_set_horizon_def blank_line_def coord_def
  easting_def northing_def altitude_def GeoPoint_init_def list_remove_def
  GeoPoint_set_horizon_def Line_horizon_def insert_point_def insert_points_def delete_point_def
  delete_point_by_coordinates_def matches_def list_insert_def slice_insert_def py_index_def
  ssize_ok_def assign_points_def example_heap_def example_state_def no_z_heap_def aba_heap_def
  aba_state_def qpqq_state_def abac_heap_def abac_state_def near_example_def

text \<open>The example lines are states that the constructor returns.\<close>

lemma example_state_constructed:
  "Line_init False PyNone [GeoPointRef 0, GeoPointRef 1] example_heap = (None, example_state)"
  by (simp add: eval_defs fun_eq_iff)

lemma abac_state_constructed:
  "Line_init False PyNone [GeoPointRef 0, GeoPointRef 1, GeoPointRef 2, GeoPointRef 3]
     ((\<lambda>_. GeoPoint_init None False 9 9 0)
        (0 := GeoPoint_init None False 0 0 0,
         1 := GeoPoint_init None False 1 1 0,
         2 := GeoPoint_init None False 0 0 0,
         3 := GeoPoint_init None False 3 3 0))
   = (None, abac_state)"
  by (simp add: eval_defs fun_eq_iff)

section \<open>Stratigraphy check\<close>

lemma with_horizon_set:
  "GeoPoint_set_horizon (Line_horizon l) p = Inr (with_horizon (line_hor l) p)"
  by (simp add: GeoPoint_set_horizon_def Line_horizon_def with_horizon_def split: option.splits)

lemma with_horizon_idem [simp]: "with_horizon v (with_horizon v p) = with_horizon v p"
  by (simp add: with_horizon_def split: option.splits)

lemma hor_with_horizon [simp]: "hor (with_horizon v p) = v"
  by (simp add: with_horizon_def split: option.splits)

lemma check_loop_eq:
  "check_loop as s =
     (None, s\<lparr>heap := (\<lambda>a. if a \<in> set as then with_horizon (line_hor (line s)) (heap s a)
                          else heap s a)\<rparr>)"
proof (induction as arbitrary: s)
  case Nil
  show ?case by simp
next
  case (Cons a as)
  show ?case
    by (simp add: with_horizon_set Cons.IH fun_eq_iff)
qed

lemma check_line_eq:
  "check_line s =
     (None, s\<lparr>heap := (\<lambda>a. if a \<in> set (points (line s))
                          then with_horizon (line_hor (line s)) (heap s a) else heap s a)\<rparr>)"
  by (simp add: check_line_def check_loop_eq)

lemma check_line_propagated: "check_line s = (None, s') \<Longrightarrow> stratigraphy_propagated s'"
  by (auto simp: check_line_eq stratigraphy_propagated_def list_all_iff)

lemma then_do_None: "then_do r f = (None, s') \<Longrightarrow> \<exists>s1. r = (None, s1) \<and> f s1 = (None, s')"
  by (auto simp: then_do_def split: prod.splits option.splits)

lemma run_checks_propagated: "run_checks s = (None, s') \<Longrightarrow> stratigraphy_propagated s'"
  unfolding run_checks_def by (blast dest: then_do_None check_line_propagated)

lemma delete_scan_propagated:
  "delete_scan near e n a xs s = (None, s') \<Longrightarrow> stratigraphy_propagated s'"
  by (induction xs) (auto simp: list_remove_def split: if_splits dest: run_checks_propagated)

text \<open>
  Claim C6. When a constructor call or a mutating call of the line returns (construction,
  \<^verbatim>\<open>insert_point\<close>, \<^verbatim>\<open>insert_points\<close>, \<^verbatim>\<open>delete_point\<close>,
  \<^verbatim>\<open>delete_point_by_coordinates\<close>, assignment to \<^verbatim>\<open>horizon\<close>), every member point
  has the horizon of the line, also when that horizon is none.
\<close>

theorem classification_propagated_after_return:
  assumes "Line_init cl hv pts h = (None, s')
         \<or> insert_point p i s = (None, s')
         \<or> insert_points ps j s = (None, s')
         \<or> delete_point q s = (None, s')
         \<or> delete_point_by_coordinates near e n a s = (None, s')
         \<or> Line_set_horizon hw s = (None, s')"
  shows "stratigraphy_propagated s'"
proof -
  have init: "Line_init cl hv pts h = (None, s') \<Longrightarrow> ?thesis"
    by (auto simp: Line_init_def Let_def split: option.splits
          dest!: then_do_None dest: run_checks_propagated)
  have ins1: "insert_point p i s = (None, s') \<Longrightarrow> ?thesis"
    by (auto simp: insert_point_def split: pyobj.splits option.splits dest: run_checks_propagated)
  have ins: "insert_points ps j s = (None, s') \<Longrightarrow> ?thesis"
    by (auto simp: insert_points_def split: option.splits if_splits
          dest!: then_do_None dest: run_checks_propagated)
  have del: "delete_point q s = (None, s') \<Longrightarrow> ?thesis"
    by (auto simp: delete_point_def list_remove_def split: pyobj.splits if_splits
          dest: run_checks_propagated)
  have delc: "delete_point_by_coordinates near e n a s = (None, s') \<Longrightarrow> ?thesis"
    by (auto simp: delete_point_by_coordinates_def dest: delete_scan_propagated)
  have seth: "Line_set_horizon hw s = (None, s') \<Longrightarrow> ?thesis"
    by (auto simp: Line_set_horizon_def split: pyhor.splits dest: check_line_propagated)
  from assms init ins1 ins del delc seth show ?thesis by blast
qed

theorem classification_propagated_witness:
  "fst (Line_set_horizon PyNone (snd (Line_init False (StratRef 7) [GeoPointRef 0, GeoPointRef 1] example_heap))) = None
   \<and> stratigraphy_propagated
        (snd (Line_set_horizon PyNone (snd (Line_init False (StratRef 7) [GeoPointRef 0, GeoPointRef 1] example_heap))))"
proof -
  let ?s = "snd (Line_init False (StratRef 7) [GeoPointRef 0, GeoPointRef 1] example_heap)"
  have r: "Line_set_horizon PyNone ?s = (None, snd (Line_set_horizon PyNone ?s))"
    by (simp add: Line_set_horizon_def check_line_eq)
  then have "stratigraphy_propagated (snd (Line_set_horizon PyNone ?s))"
    using classification_propagated_after_return[where s = ?s and hw = PyNone] by blast
  with r show ?thesis by (metis fst_conv)
qed

section \<open>Type errors\<close>

lemma all_points_None: "\<exists>x\<in>set pts. \<not> is_GeoPoint x \<Longrightarrow> all_points pts = None"
  by (induction pts rule: all_points.induct) auto

text \<open>
  Claim C8. A call that is given something that is not a \<^verbatim>\<open>GeoPoint\<close> raises before it
  changes anything. The constructor raises ValueError, as its docstring says, and has
  written to no point; \<^verbatim>\<open>insert_points\<close> (which checks every element before it inserts
  one), \<^verbatim>\<open>insert_point\<close> and \<^verbatim>\<open>delete_point\<close> raise TypeError in the state they were
  called in: sequence, ordinals, closed flag and horizons are those before the call.
\<close>

theorem type_errors_atomic:
  assumes "\<exists>x\<in>set pts. \<not> is_GeoPoint x" and "\<not> is_GeoPoint p"
  shows "Line_init cl hv pts h = (Some ValueError, \<lparr>heap = h, line = blank_line\<rparr>)
       \<and> insert_points pts i s = (Some TypeError, s)
       \<and> insert_point p j s = (Some TypeError, s)
       \<and> delete_point p s = (Some TypeError, s)"
proof -
  from assms(1) have n: "all_points pts = None" by (rule all_points_None)
  from assms(2) have p: "p = OtherObj" by (cases p) auto
  have "Line_init cl hv pts h = (Some ValueError, \<lparr>heap = h, line = blank_line\<rparr>)"
    by (simp add: Line_init_def n)
  moreover have "insert_points pts i s = (Some TypeError, s)"
    by (simp add: insert_points_def n)
  moreover have "insert_point p j s = (Some TypeError, s)"
    by (simp add: insert_point_def p)
  moreover have "delete_point p s = (Some TypeError, s)"
    by (simp add: delete_point_def p)
  ultimately show ?thesis by blast
qed

theorem type_errors_atomic_witness:
  "Line_init False PyNone [GeoPointRef 2, OtherObj] example_heap
     = (Some ValueError, \<lparr>heap = example_heap, line = blank_line\<rparr>)
   \<and> insert_points [GeoPointRef 2, OtherObj] 1 example_state = (Some TypeError, example_state)
   \<and> insert_point OtherObj 0 example_state = (Some TypeError, example_state)
   \<and> delete_point OtherObj example_state = (Some TypeError, example_state)"
  using type_errors_atomic[of "[GeoPointRef 2, OtherObj]" OtherObj False PyNone example_heap 1 example_state 0]
  by simp

text \<open>
  The error of the constructor is not the TypeError of the three mutators: on the same list
  of arguments the constructor raises ValueError where \<^verbatim>\<open>insert_points\<close> raises TypeError.
\<close>

theorem constructor_raises_value_error:
  "fst (Line_init False PyNone [GeoPointRef 2, OtherObj] example_heap) = Some ValueError
   \<and> fst (Line_init False PyNone [GeoPointRef 2, OtherObj] example_heap) \<noteq> Some TypeError
   \<and> fst (insert_points [GeoPointRef 2, OtherObj] 1 example_state) = Some TypeError"
  by (simp add: Line_init_def insert_points_def)

subsection \<open>The scan of deletion by coordinates\<close>





section \<open>Lines in an extent\<close>

lemma id_in_extent_iff:
  "lr_id l \<in> extent_line_ids db a b c d \<longleftrightarrow> has_point_in_extent db a b c d l"
  unfolding extent_line_ids_def has_point_in_extent_def attached_in_extent_def between_def
  by (auto simp: image_iff)

lemma no_ids_iff:
  "extent_line_ids db a b c d = {} \<longleftrightarrow> (\<forall>p\<in>set (geopoints db). \<not> attached_in_extent a b c d p)"
  unfolding extent_line_ids_def attached_in_extent_def between_def
  by (auto simp: filter_empty_conv)

lemma lines_in_extent_result:
  assumes "load_in_extent_from_db (Session db) minE maxE minN maxN = Inr (res, qs)"
  shows "mset res = filter_mset (has_point_in_extent db minE maxE minN maxN) (mset (lines db))
       \<and> sorted (map lr_id res)
       \<and> (if \<forall>p\<in>set (geopoints db). \<not> attached_in_extent minE maxE minN maxN p
          then res = [] \<and> qs = [SelectLineIdsOfPoints]
          else qs = [SelectLineIdsOfPoints, SelectLinesByIds])"
proof (cases "\<forall>p\<in>set (geopoints db). \<not> attached_in_extent minE maxE minN maxN p")
  case True
  then have e: "extent_line_ids db minE maxE minN maxN = {}"
    by (simp add: no_ids_iff)
  from assms have r: "res = []" "qs = [SelectLineIdsOfPoints]"
    by (simp_all add: load_in_extent_from_db_def e)
  from True have "filter_mset (has_point_in_extent db minE maxE minN maxN) (mset (lines db)) = {#}"
    by (auto simp: has_point_in_extent_def)
  with r True show ?thesis by simp
next
  case False
  then have e: "extent_line_ids db minE maxE minN maxN \<noteq> {}"
    by (simp add: no_ids_iff)
  from assms have r: "res = sort_key lr_id (filter (has_point_in_extent db minE maxE minN maxN) (lines db))"
      "qs = [SelectLineIdsOfPoints, SelectLinesByIds]"
    using e by (simp_all add: load_in_extent_from_db_def Let_def id_in_extent_iff)
  from r False show ?thesis by simp
qed

lemma load_in_extent_returns:
  "\<exists>res qs. load_in_extent_from_db (Session db) minE maxE minN maxN = Inr (res, qs)"
  by (simp add: load_in_extent_from_db_def Let_def)

text \<open>
  Claim C10. With a session, the query for the lines in an extent returns; its result holds
  exactly the lines that have an attached member point with easting and northing in the
  closed rectangle, in ascending order of the line identifier. The identifiers of the lines
  of such points are collected first, and when there is none the result is empty and the
  second query (the batch fetch of the lines) is not sent.
\<close>

theorem lines_in_extent:
  "\<exists>res qs. load_in_extent_from_db (Session db) minE maxE minN maxN = Inr (res, qs)
       \<and> mset res = filter_mset (has_point_in_extent db minE maxE minN maxN) (mset (lines db))
       \<and> sorted (map lr_id res)
       \<and> (if \<forall>p\<in>set (geopoints db). \<not> attached_in_extent minE maxE minN maxN p
          then res = [] \<and> qs = [SelectLineIdsOfPoints]
          else qs = [SelectLineIdsOfPoints, SelectLinesByIds])"
  using load_in_extent_returns[of db minE maxE minN maxN] lines_in_extent_result[of db minE maxE minN maxN]
  by blast

theorem lines_in_extent_witness:
  "load_in_extent_from_db (Session example_db) 5 20 5 20
      = Inr ([\<lparr>lr_id = 5, lr_closed = False\<rparr>], [SelectLineIdsOfPoints, SelectLinesByIds])
   \<and> mset [\<lparr>lr_id = 5, lr_closed = False\<rparr>]
      = filter_mset (has_point_in_extent example_db 5 20 5 20) (mset (lines example_db))"
proof -
  have a: "load_in_extent_from_db (Session example_db) 5 20 5 20
      = Inr ([\<lparr>lr_id = 5, lr_closed = False\<rparr>], [SelectLineIdsOfPoints, SelectLinesByIds])"
    by (simp add: load_in_extent_from_db_def extent_line_ids_def example_db_def between_def)
  from lines_in_extent[of example_db 5 20 5 20] a show ?thesis by auto
qed

section \<open>Behaviour at the boundary cases\<close>

text \<open>
  Claim C1 asks that a line constructed from one point keeps that point and its closed flag.
  The constructor does otherwise: the first and the last point of a one-point sequence are
  the same point, so the closure test succeeds, the point is deleted and \<^verbatim>\<open>closed\<close> is
  set, whatever flag was passed. The point itself is changed in its ordinal only, which the
  assignment to the collection has written if it was not set.
\<close>

theorem singleton_line_is_emptied:
  "Line_init cl PyNone [GeoPointRef a] h
     = (None, \<lparr>heap = (if line_pos (h a) = None then h(a := (h a)\<lparr>line_pos := Some 0\<rparr>) else h),
               line = \<lparr>closed = Some True, line_hor = None, line_horizon_id = Some (- 1),
                       points = []\<rparr>\<rparr>)
   \<and> Line_init cl (StratRef x) [GeoPointRef a] h
     = (None, \<lparr>heap = (if line_pos (h a) = None then h(a := (h a)\<lparr>line_pos := Some 0\<rparr>) else h),
               line = \<lparr>closed = Some True, line_hor = Some x, line_horizon_id = None,
                       points = []\<rparr>\<rparr>)"
  by (simp add: eval_defs)

text \<open>
  Claim C2 asks that \<^verbatim>\<open>insert_points\<close> with a position at or beyond the length appends
  the points. The branch for that case assigns to the slice \<^verbatim>\<open>[-1:-1]\<close>, which lies
  before the last element: on the line (0,0), (1,1) the points (2,2), (3,3) given with
  position 100 end up between the two, and (1,1) stays last.
\<close>

theorem insert_points_beyond_end:
  "fst (insert_points [GeoPointRef 2, GeoPointRef 3] 100 example_state) = None
   \<and> points (line (snd (insert_points [GeoPointRef 2, GeoPointRef 3] 100 example_state))) = [0, 2, 3, 1]
   \<and> coords (snd (insert_points [GeoPointRef 2, GeoPointRef 3] 100 example_state))
       = [(0, 0, 0), (2, 2, 0), (3, 3, 0), (1, 1, 0)]
   \<and> ordinals (snd (insert_points [GeoPointRef 2, GeoPointRef 3] 100 example_state))
       = [Some 0, Some 1, Some 2, Some 3]"
  by (simp add: eval_defs coords_def ordinals_def)

text \<open>
  Claim C3 asks that the altitude of a point without z-value counts as 0 in the comparison
  of coordinates. The comparison reads the \<^verbatim>\<open>altitude\<close> getter, which returns the stored
  value: two adjacent points without z-value, equal in easting and northing, stored
  altitudes 1 and 2, are both kept.
\<close>

theorem no_z_altitudes_compared:
  "fst (Line_init False PyNone [GeoPointRef 0, GeoPointRef 1] no_z_heap) = None
   \<and> points (line (snd (Line_init False PyNone [GeoPointRef 0, GeoPointRef 1] no_z_heap))) = [0, 1]
   \<and> closed (line (snd (Line_init False PyNone [GeoPointRef 0, GeoPointRef 1] no_z_heap))) = Some False
   \<and> has_z (no_z_heap 0) = False \<and> has_z (no_z_heap 1) = False
   \<and> easting (no_z_heap 0) = easting (no_z_heap 1) \<and> northing (no_z_heap 0) = northing (no_z_heap 1)"
  by (simp add: eval_defs)

section \<open>Removal of adjacent duplicates\<close>

lemma same_but_pos_refl [simp]: "same_but_pos h h"
  unfolding same_but_pos_def
proof
  fix x
  have "h x = (h x)\<lparr>line_pos := line_pos (h x)\<rparr>" by simp
  then show "\<exists>k. h x = (h x)\<lparr>line_pos := k\<rparr>" by blast
qed

lemma same_but_pos_trans: "same_but_pos h2 h1 \<Longrightarrow> same_but_pos h1 h \<Longrightarrow> same_but_pos h2 h"
  unfolding same_but_pos_def
proof
  fix x
  assume a: "\<forall>x. \<exists>k. h2 x = (h1 x)\<lparr>line_pos := k\<rparr>" and b: "\<forall>x. \<exists>k. h1 x = (h x)\<lparr>line_pos := k\<rparr>"
  from a obtain k where k: "h2 x = (h1 x)\<lparr>line_pos := k\<rparr>" by blast
  from b obtain j where j: "h1 x = (h x)\<lparr>line_pos := j\<rparr>" by blast
  have "h2 x = (h x)\<lparr>line_pos := k\<rparr>" by (simp add: k j)
  then show "\<exists>k. h2 x = (h x)\<lparr>line_pos := k\<rparr>" by blast
qed

lemma same_but_pos_upd: "same_but_pos (h(a := (h a)\<lparr>line_pos := i\<rparr>)) h"
  unfolding same_but_pos_def
proof
  fix x
  show "\<exists>k. (h(a := (h a)\<lparr>line_pos := i\<rparr>)) x = (h x)\<lparr>line_pos := k\<rparr>"
  proof (cases "x = a")
    case True then show ?thesis by auto
  next
    case False
    have "h x = (h x)\<lparr>line_pos := line_pos (h x)\<rparr>" by simp
    with False show ?thesis by (metis fun_upd_other)
  qed
qed

lemma same_but_pos_reorder_from: "same_but_pos (reorder_from i as h) h"
proof (induction as arbitrary: i h)
  case Nil show ?case by simp
next
  case (Cons a as)
  have "same_but_pos (reorder_from (i + 1) as (h(a := (h a)\<lparr>line_pos := Some i\<rparr>)))
          (h(a := (h a)\<lparr>line_pos := Some i\<rparr>))"
    by (rule Cons.IH)
  from same_but_pos_trans[OF this same_but_pos_upd] show ?case by simp
qed


lemma set_points_simps [simp]:
  "line (set_points ps s) = (line s)\<lparr>points := ps\<rparr>"
  "same_but_pos (heap (set_points ps s)) (heap s)"
  by (simp_all add: set_points_def reorder_def same_but_pos_reorder_from)

lemma keep_adj_hd: "\<exists>ys. keep_adj k (x # xs) = x # ys"
  by (cases xs) auto


lemma keep_adj_cong: "(\<And>x. k x = k' x) \<Longrightarrow> keep_adj k xs = keep_adj k' xs"
  by (induction k xs rule: keep_adj.induct) auto




lemma keep_adj_Nil_iff [simp]: "keep_adj k xs = [] \<longleftrightarrow> xs = []"
proof (cases xs)
  case Nil
  then show ?thesis by simp
next
  case (Cons a list)
  with keep_adj_hd[of k a list] show ?thesis by auto
qed














section \<open>Running the checks twice\<close>







lemma ordinals_length [simp]: "length (ordinals s) = length (points (line s))"
  by (simp add: ordinals_def)


lemma reorder_line [simp]: "line (reorder s) = line s"
  by (simp add: reorder_def)




lemma with_horizon_keeps [simp]:
  "line_pos (with_horizon v p) = line_pos p"
  "coord (with_horizon v p) = coord p"
  by (simp_all add: with_horizon_def coord_def easting_def northing_def altitude_def split: option.splits)








lemma remove_doubled_empty:
  "points (line s) = [] \<Longrightarrow> remove_doubled_points s = (Some IndexError, s)"
  by (simp add: remove_doubled_points_def then_do_def fold_closure_def)








lemma set_points_points [simp]: "points (line (set_points ps s)) = ps"
  by simp

lemma delete_scan_ends_with_run_checks:
  "delete_scan near e n al xs s = (None, s') \<Longrightarrow>
   \<exists>s0 a. a \<in> set (points (line s)) \<and> points (line s0) = remove1 a (points (line s)) \<and>
          run_checks s0 = (None, s')"
proof (induction xs)
  case Nil
  then show ?case by simp
next
  case (Cons x xs)
  show ?case
  proof (cases "matches near e n al (heap s x)")
    case True
    show ?thesis
    proof (cases "x \<in> set (points (line s))")
      case False
      with True Cons.prems show ?thesis by (simp add: list_remove_def)
    next
      case mem: True
      with True Cons.prems have "run_checks (set_points (remove1 x (points (line s))) s) = (None, s')"
        by (simp add: list_remove_def)
      with mem show ?thesis using set_points_points by blast
    qed
  next
    case False
    with Cons.prems have "delete_scan near e n al xs s = (None, s')" by simp
    then show ?thesis by (rule Cons.IH)
  qed
qed

lemma mutators_end_with_run_checks:
  "Line_init cl hv pts h = (None, s') \<Longrightarrow>
     \<exists>s0 ps. all_points pts = Some ps \<and> points (line s0) = ps \<and> run_checks s0 = (None, s')"
  "insert_point p i s = (None, s') \<Longrightarrow>
     \<exists>s0 a zs. p = GeoPointRef a \<and> list_insert i a (points (line s)) = Some zs \<and>
            points (line s0) = zs \<and> run_checks s0 = (None, s')"
  "insert_points pts j s = (None, s') \<Longrightarrow>
     \<exists>s0 ps. all_points pts = Some ps \<and>
            slice_insert (if int (length (points (line s))) \<le> j then - 1 else j) ps s = (None, s0) \<and>
            run_checks s0 = (None, s')"
  "delete_point q s = (None, s') \<Longrightarrow>
     \<exists>s0 a. q = GeoPointRef a \<and> points (line s0) = remove1 a (points (line s)) \<and>
            run_checks s0 = (None, s')"
  "delete_point_by_coordinates near e n al s = (None, s') \<Longrightarrow>
     \<exists>s0 a. a \<in> set (points (line s)) \<and> points (line s0) = remove1 a (points (line s)) \<and>
            run_checks s0 = (None, s')"
proof -
  show "\<exists>s0 ps. all_points pts = Some ps \<and> points (line s0) = ps \<and> run_checks s0 = (None, s')"
    if a: "Line_init cl hv pts h = (None, s')"
  proof (cases "all_points pts")
    case None
    with a show ?thesis by (simp add: Line_init_def)
  next
    case (Some ps)
    with a obtain s1 where "run_checks (assign_points ps s1) = (None, s')"
      by (auto simp: Line_init_def Let_def dest!: then_do_None)
    moreover have "points (line (assign_points ps s1)) = ps" by (simp add: assign_points_def)
    ultimately show ?thesis using Some by blast
  qed
  show "\<exists>s0 a zs. p = GeoPointRef a \<and> list_insert i a (points (line s)) = Some zs \<and>
            points (line s0) = zs \<and> run_checks s0 = (None, s')"
    if a: "insert_point p i s = (None, s')"
  proof (cases p)
    case OtherObj
    with a show ?thesis by (simp add: insert_point_def)
  next
    case (GeoPointRef x)
    show ?thesis
    proof (cases "list_insert i x (points (line s))")
      case None
      with a GeoPointRef show ?thesis by (simp add: insert_point_def)
    next
      case (Some zs)
      with a GeoPointRef have "run_checks (set_points zs s) = (None, s')"
        by (simp add: insert_point_def)
      with GeoPointRef Some show ?thesis using set_points_points by blast
    qed
  qed
  show "\<exists>s0 ps. all_points pts = Some ps \<and>
            slice_insert (if int (length (points (line s))) \<le> j then - 1 else j) ps s = (None, s0) \<and>
            run_checks s0 = (None, s')"
    if a: "insert_points pts j s = (None, s')"
  proof (cases "all_points pts")
    case None
    with a show ?thesis by (simp add: insert_points_def)
  next
    case (Some ps)
    with a have "then_do (slice_insert (if int (length (points (line s))) \<le> j then - 1 else j) ps s)
        run_checks = (None, s')"
      by (simp add: insert_points_def split: if_splits)
    then obtain s0 where
      "slice_insert (if int (length (points (line s))) \<le> j then - 1 else j) ps s = (None, s0)"
      "run_checks s0 = (None, s')"
      by (blast dest: then_do_None)
    with Some show ?thesis by blast
  qed
  show "\<exists>s0 a. q = GeoPointRef a \<and> points (line s0) = remove1 a (points (line s)) \<and>
            run_checks s0 = (None, s')"
    if a: "delete_point q s = (None, s')"
  proof (cases q)
    case OtherObj
    with a show ?thesis by (simp add: delete_point_def)
  next
    case (GeoPointRef x)
    with a have "run_checks (set_points (remove1 x (points (line s))) s) = (None, s')"
      by (simp add: delete_point_def list_remove_def split: if_splits)
    with GeoPointRef show ?thesis using set_points_points by blast
  qed
  show "\<exists>s0 a. a \<in> set (points (line s)) \<and> points (line s0) = remove1 a (points (line s)) \<and>
            run_checks s0 = (None, s')"
    if a: "delete_point_by_coordinates near e n al s = (None, s')"
    using a unfolding delete_point_by_coordinates_def by (rule delete_scan_ends_with_run_checks)
qed




section \<open>Deletion by coordinates\<close>





section \<open>The closure step on short sequences\<close>

lemma fold_closure_fails_iff: "fst (fold_closure s) = Some IndexError \<longleftrightarrow> points (line s) = []"
  by (simp add: fold_closure_def Let_def split: list.splits)

lemma fold_closure_returns: "points (line s) \<noteq> [] \<Longrightarrow> fst (fold_closure s) = None"
  by (simp add: fold_closure_def Let_def split: list.splits)

text \<open>
  The loop never asks \<^verbatim>\<open>list.remove\<close> for a point that is not there, and it never
  removes the last occurrence of the first point: the first point and the points of the copy
  still to be visited are in the sequence, counted with their multiplicities.
\<close>

lemma dedup_loop_total:
  "mset (a0 # rest) \<subseteq># mset (points (line s)) \<Longrightarrow>
   \<exists>s'. dedup_loop (a # rest) s = (None, s') \<and> a0 \<in> set (points (line s'))"
proof (induction rest arbitrary: a s)
  case Nil
  then have "a0 \<in># mset (points (line s))" by (simp add: insert_subset_eq_iff)
  then show ?case by simp
next
  case (Cons b r)
  note prems = Cons.prems and IH = Cons.IH
  from prems have sub: "add_mset b (add_mset a0 (mset r)) \<subseteq># mset (points (line s))"
    by (simp add: add_mset_commute)
  then have b: "b \<in># mset (points (line s))"
    and rest: "mset (a0 # r) \<subseteq># mset (points (line s)) - {#b#}"
    by (simp_all add: insert_subset_eq_iff)
  show ?case
  proof (cases "coord (heap s a) = coord (heap s b)")
    case True
    from b have rm: "list_remove b (points (line s)) = Some (remove1 b (points (line s)))"
      by (simp add: list_remove_def)
    let ?s1 = "set_points (remove1 b (points (line s))) s"
    from rest have "mset (a0 # r) \<subseteq># mset (points (line ?s1))" by simp
    from IH[OF this] obtain s' where
      "dedup_loop (b # r) ?s1 = (None, s')" "a0 \<in> set (points (line s'))" by blast
    with True rm show ?thesis by simp
  next
    case False
    from rest have "mset (a0 # r) \<subseteq># mset (points (line s))"
      by (rule subset_mset.order_trans) (rule diff_subset_eq_self)
    from IH[OF this] obtain s' where
      "dedup_loop (b # r) s = (None, s')" "a0 \<in> set (points (line s'))" by blast
    with False show ?thesis by simp
  qed
qed

lemma remove_doubled_fails_iff_empty:
  "fst (remove_doubled_points s) = (if points (line s) = [] then Some IndexError else None)"
proof (cases "points (line s)")
  case Nil
  then show ?thesis by (simp add: remove_doubled_empty)
next
  case (Cons a rest)
  then have "mset (a # rest) \<subseteq># mset (points (line s))" by simp
  from dedup_loop_total[OF this] obtain s' where
    d: "dedup_loop (a # rest) s = (None, s')" and m: "a \<in> set (points (line s'))" by blast
  from m have "points (line s') \<noteq> []" by auto
  then have "fst (fold_closure s') = None" by (rule fold_closure_returns)
  with d Cons show ?thesis by (simp add: remove_doubled_points_def then_do_def)
qed

lemma run_checks_fails_iff_empty:
  "fst (run_checks s) = (if points (line s) = [] then Some IndexError else None)"
proof -
  obtain e s1 where r: "remove_doubled_points s = (e, s1)" by (cases "remove_doubled_points s")
  with remove_doubled_fails_iff_empty[of s]
  have e: "e = (if points (line s) = [] then Some IndexError else None)" by simp
  show ?thesis
    by (simp add: run_checks_def r e then_do_def check_line_eq)
qed

lemma list_insert_ok:
  "ssize_ok k \<Longrightarrow> \<exists>zs. list_insert k y xs = Some zs \<and> length zs = Suc (length xs)"
  by (simp add: list_insert_def py_index_def)

lemma insert_each_ok:
  "- (2 ^ 63) \<le> k \<Longrightarrow> k + int (length ys) \<le> 2 ^ 63 \<Longrightarrow>
   \<exists>s'. insert_each k ys s = (None, s') \<and>
        length (points (line s')) = length (points (line s)) + length ys"
proof (induction ys arbitrary: k s)
  case Nil
  show ?case by simp
next
  case (Cons y ys)
  from Cons.prems have "ssize_ok k" by (simp add: ssize_ok_def)
  from list_insert_ok[OF this, of y "points (line s)"] obtain zs where
    z: "list_insert k y (points (line s)) = Some zs" "length zs = Suc (length (points (line s)))"
    by blast
  from Cons.prems have "- (2 ^ 63) \<le> k + 1" "k + 1 + int (length ys) \<le> 2 ^ 63" by simp_all
  from Cons.IH[OF this, of "set_points zs s"] obtain s' where
    "insert_each (k + 1) ys (set_points zs s) = (None, s')"
    "length (points (line s')) = length (points (line (set_points zs s))) + length ys"
    by blast
  with z show ?case by simp
qed

lemma init_empty: "hv \<noteq> OtherHor \<Longrightarrow> fst (Line_init cl hv [] h) = Some IndexError"
  by (cases hv) (simp_all add: Line_init_def Line_set_horizon_def blank_line_def check_line_eq
        then_do_def run_checks_def remove_doubled_points_def fold_closure_def assign_points_def
        Let_def)

lemma init_twins:
  "hv \<noteq> OtherHor \<Longrightarrow> coord (h a) = coord (h b) \<Longrightarrow>
    fst (Line_init cl hv [GeoPointRef a, GeoPointRef b] h) = None \<and>
    points (line (snd (Line_init cl hv [GeoPointRef a, GeoPointRef b] h))) = [] \<and>
    closed (line (snd (Line_init cl hv [GeoPointRef a, GeoPointRef b] h))) = Some True"
  by (cases hv; cases "a = b")
     (simp_all add: Line_init_def Line_set_horizon_def blank_line_def check_line_eq then_do_def
        run_checks_def remove_doubled_points_def list_remove_def fold_closure_def set_points_def
        reorder_def assign_points_def coord_def easting_def northing_def altitude_def Let_def)

lemma empty_insert_points_nil: "points (line s) = [] \<Longrightarrow> fst (insert_points [] i s) = Some IndexError"
  by (simp add: insert_points_def slice_insert_def run_checks_fails_iff_empty then_do_def)

lemma empty_insert_point:
  "points (line s) = [] \<Longrightarrow> ssize_ok j \<Longrightarrow>
     fst (insert_point (GeoPointRef q) j s) = None \<and>
     points (line (snd (insert_point (GeoPointRef q) j s))) = []"
  by (simp add: insert_point_def list_insert_def py_index_def run_checks_def
        remove_doubled_points_def then_do_def fold_closure_def set_points_def reorder_def check_line_eq)

lemma empty_insert_points:
  assumes e: "points (line s) = []" and a: "all_points pts = Some ps" and ne: "ps \<noteq> []"
    and lo: "- (2 ^ 63) \<le> i" and len: "int (length ps) \<le> 2 ^ 63"
  shows "fst (insert_points pts i s) = None"
proof -
  define k where "k = (if 0 \<le> i then - 1 else i)"
  have sl: "(if int (length (points (line s))) \<le> i then slice_insert (- 1) ps s
             else slice_insert i ps s) = insert_each k ps s"
    by (simp add: slice_insert_def e k_def)
  have "- (2 ^ 63) \<le> k" "k + int (length ps) \<le> 2 ^ 63"
    using lo len by (simp_all add: k_def)
  from insert_each_ok[OF this, of s] obtain s1 where
    1: "insert_each k ps s = (None, s1)" and
    2: "length (points (line s1)) = length (points (line s)) + length ps" by blast
  from 2 ne have "points (line s1) \<noteq> []" by auto
  then have "fst (run_checks s1) = None" by (simp add: run_checks_fails_iff_empty)
  moreover have "insert_points pts i s = run_checks s1"
    using 1 sl by (simp add: insert_points_def a then_do_def split: if_splits)
  ultimately show ?thesis by simp
qed

text \<open>
  Claim C4, as the code has it. The closure step reads \<^verbatim>\<open>self.points[0]\<close> and
  \<^verbatim>\<open>self.points[-1]\<close> without a test, so it raises IndexError exactly when the sequence is
  empty at that step; \<^verbatim>\<open>__remove_doubled_points\<close>, and with it the checks that end every
  constructor and mutator, raise it exactly when the sequence is empty on entry.
  Constructing a line from the empty list fails there. Constructing a line from two points
  with the same coordinate triple returns and leaves zero points and \<^verbatim>\<open>closed\<close> set. On a
  line without points a further mutation fails in that step only when the sequence is still
  empty there (\<^verbatim>\<open>insert_points\<close> with an empty list); \<^verbatim>\<open>insert_point\<close> and
  \<^verbatim>\<open>insert_points\<close> with at least one point, at a position that the list accepts, put
  their points in first, so the step finds a point and the call returns
  (after \<^verbatim>\<open>insert_point\<close> with the line empty again).
\<close>

theorem closure_fold_needs_a_point:
  "(fst (fold_closure s) = Some IndexError \<longleftrightarrow> points (line s) = [])
   \<and> fst (remove_doubled_points s) = (if points (line s) = [] then Some IndexError else None)
   \<and> fst (run_checks s) = (if points (line s) = [] then Some IndexError else None)
   \<and> (points (line s) = [] \<longrightarrow> remove_doubled_points s = (Some IndexError, s))
   \<and> (hv \<noteq> OtherHor \<longrightarrow> fst (Line_init cl hv [] h) = Some IndexError)
   \<and> (hv \<noteq> OtherHor \<and> coord (h a) = coord (h b) \<longrightarrow>
        fst (Line_init cl hv [GeoPointRef a, GeoPointRef b] h) = None \<and>
        points (line (snd (Line_init cl hv [GeoPointRef a, GeoPointRef b] h))) = [] \<and>
        closed (line (snd (Line_init cl hv [GeoPointRef a, GeoPointRef b] h))) = Some True)
   \<and> (points (line s) = [] \<longrightarrow> fst (insert_points [] i s) = Some IndexError)
   \<and> (points (line s) = [] \<and> ssize_ok j \<longrightarrow>
        fst (insert_point (GeoPointRef q) j s) = None \<and>
        points (line (snd (insert_point (GeoPointRef q) j s))) = [])
   \<and> (points (line s) = [] \<and> all_points pts = Some ps \<and> ps \<noteq> [] \<and>
        - (2 ^ 63) \<le> i \<and> int (length ps) \<le> 2 ^ 63 \<longrightarrow>
        fst (insert_points pts i s) = None)"
proof (intro conjI impI)
  show "fst (fold_closure s) = Some IndexError \<longleftrightarrow> points (line s) = []"
    by (rule fold_closure_fails_iff)
  show "fst (remove_doubled_points s) = (if points (line s) = [] then Some IndexError else None)"
    by (rule remove_doubled_fails_iff_empty)
  show "fst (run_checks s) = (if points (line s) = [] then Some IndexError else None)"
    by (rule run_checks_fails_iff_empty)
  show "remove_doubled_points s = (Some IndexError, s)" if "points (line s) = []"
    using that by (rule remove_doubled_empty)
  show "fst (Line_init cl hv [] h) = Some IndexError" if "hv \<noteq> OtherHor"
    using that by (rule init_empty)
  show "fst (Line_init cl hv [GeoPointRef a, GeoPointRef b] h) = None"
    and "points (line (snd (Line_init cl hv [GeoPointRef a, GeoPointRef b] h))) = []"
    and "closed (line (snd (Line_init cl hv [GeoPointRef a, GeoPointRef b] h))) = Some True"
    if "hv \<noteq> OtherHor \<and> coord (h a) = coord (h b)"
    using that init_twins[of hv h a b cl] by simp_all
  show "fst (insert_points [] i s) = Some IndexError" if "points (line s) = []"
    using that by (rule empty_insert_points_nil)
  show "fst (insert_point (GeoPointRef q) j s) = None"
    and "points (line (snd (insert_point (GeoPointRef q) j s))) = []"
    if "points (line s) = [] \<and> ssize_ok j"
    using that empty_insert_point[of s j q] by simp_all
  show "fst (insert_points pts i s) = None"
    if "points (line s) = [] \<and> all_points pts = Some ps \<and> ps \<noteq> [] \<and>
        - (2 ^ 63) \<le> i \<and> int (length ps) \<le> 2 ^ 63"
    using that empty_insert_points[of s pts ps i] by simp
qed

theorem closure_fold_witness:
  "coord (example_heap 4) = coord (example_heap 5)
   \<and> fst (Line_init False PyNone [] example_heap) = Some IndexError
   \<and> fst (Line_init False PyNone [GeoPointRef 4, GeoPointRef 5] example_heap) = None
   \<and> points (line (snd (Line_init False PyNone [GeoPointRef 4, GeoPointRef 5] example_heap))) = []
   \<and> closed (line (snd (Line_init False PyNone [GeoPointRef 4, GeoPointRef 5] example_heap)))
       = Some True
   \<and> fst (insert_points [] 0
            (snd (Line_init False PyNone [GeoPointRef 4, GeoPointRef 5] example_heap))) = Some IndexError
   \<and> fst (insert_point (GeoPointRef 2) 0
            (snd (Line_init False PyNone [GeoPointRef 4, GeoPointRef 5] example_heap))) = None
   \<and> fst (insert_points [GeoPointRef 0, GeoPointRef 1] 0
            (snd (Line_init False PyNone [GeoPointRef 4, GeoPointRef 5] example_heap))) = None
   \<and> fst (run_checks example_state) = None"
proof -
  let ?e = "snd (Line_init False PyNone [GeoPointRef 4, GeoPointRef 5] example_heap)"
  have c: "coord (example_heap 4) = coord (example_heap 5)" by (simp add: example_heap_def)
  have n: "PyNone \<noteq> OtherHor" by simp
  note t = closure_fold_needs_a_point[of _ PyNone False example_heap 4 5]
  from t n have 1: "fst (Line_init False PyNone [] example_heap) = Some IndexError" by blast
  from t n c have 2: "fst (Line_init False PyNone [GeoPointRef 4, GeoPointRef 5] example_heap) = None"
    and 3: "points (line ?e) = []"
    and 4: "closed (line ?e) = Some True" by blast+
  have j: "ssize_ok 0" by (simp add: ssize_ok_def)
  have a: "all_points [GeoPointRef 0, GeoPointRef 1] = Some [0, 1]" by simp
  have b: "[0, 1 :: nat] \<noteq> [] \<and> - (2 ^ 63) \<le> (0 :: int) \<and> int (length [0, 1 :: nat]) \<le> 2 ^ 63"
    by simp
  note u = closure_fold_needs_a_point[of ?e PyNone False example_heap 4 5 0 0 2
      "[GeoPointRef 0, GeoPointRef 1]" "[0, 1]"]
  from u 3 have 5: "fst (insert_points [] 0 ?e) = Some IndexError" by blast
  from u 3 j have 6: "fst (insert_point (GeoPointRef 2) 0 ?e) = None" by blast
  from u 3 a b have 7: "fst (insert_points [GeoPointRef 0, GeoPointRef 1] 0 ?e) = None" by blast
  have d: "points (line example_state) \<noteq> []" by (simp add: example_state_def)
  from closure_fold_needs_a_point[of example_state PyNone False example_heap 4 5] d
  have 8: "fst (run_checks example_state) = None" by simp
  from c 1 2 3 4 5 6 7 8 show ?thesis by blast
qed

text \<open>
  Claim C4 says that after such a construction every further mutation fails in its
  normalization. It does not: on the line emptied by two points at (9,9), \<^verbatim>\<open>insert_point\<close>
  returns, and \<^verbatim>\<open>insert_points\<close> with the points (0,0), (1,1) returns and leaves a line of
  these two points, (1,1) first.
\<close>

theorem mutation_after_emptying_returns:
  "fst (Line_init False PyNone [GeoPointRef 4, GeoPointRef 5] example_heap) = None
   \<and> points (line (snd (Line_init False PyNone [GeoPointRef 4, GeoPointRef 5] example_heap))) = []
   \<and> closed (line (snd (Line_init False PyNone [GeoPointRef 4, GeoPointRef 5] example_heap)))
       = Some True
   \<and> fst (insert_point (GeoPointRef 2) 0
           (snd (Line_init False PyNone [GeoPointRef 4, GeoPointRef 5] example_heap))) = None
   \<and> fst (insert_points [GeoPointRef 0, GeoPointRef 1] 0
           (snd (Line_init False PyNone [GeoPointRef 4, GeoPointRef 5] example_heap))) = None
   \<and> points (line (snd (insert_points [GeoPointRef 0, GeoPointRef 1] 0
           (snd (Line_init False PyNone [GeoPointRef 4, GeoPointRef 5] example_heap))))) = [1, 0]"
  by (simp add: eval_defs)

end
